theory Spec2Isabelle
  imports Main
begin

section \<open>JavaScript values and the local store\<close>

text \<open>
  The service of \<^verbatim>\<open>index.js\<close> passes JavaScript values between the SDK, the local
  store and the HTTP layer. A value is a tree: the primitives, plain objects (their own
  enumerable properties in insertion order), arrays, and error objects, which carry the
  name of their constructor and a message. Values the SDK hands out (credentials, record
  handles, identities) are opaque to the service and are values of the same type.
\<close>

datatype jsval =
    JUndefined
  | JNull
  | JBool bool
  | JNum int
  | JStr string
  | JObject "(string \<times> jsval) list"
  | JArray "jsval list"
  | JError string string

text \<open>
  \<^verbatim>\<open>localStorage\<close> (node-localstorage over \<^verbatim>\<open>./scratch\<close>) maps keys to strings.
  \<^verbatim>\<open>getItem\<close> answers \<^verbatim>\<open>null\<close> for a key that is absent.
\<close>

type_synonym storage = "string \<rightharpoonup> string"

definition getItem :: "storage \<Rightarrow> string \<Rightarrow> jsval" where
  "getItem st k = (case st k of None \<Rightarrow> JNull | Some v \<Rightarrow> JStr v)"

definition setItem :: "storage \<Rightarrow> string \<Rightarrow> string \<Rightarrow> storage" where
  "setItem st k v = st(k \<mapsto> v)"

section \<open>Dates\<close>

text \<open>
  \<^verbatim>\<open>getExpirationDate\<close> (lines 33-37) uses the built-in \<^verbatim>\<open>Date\<close>: \<^verbatim>\<open>new Date()\<close>,
  \<^verbatim>\<open>getDate\<close>, \<^verbatim>\<open>setDate\<close> and \<^verbatim>\<open>toISOString\<close>. They are modelled by the
  abstract operations of the language standard (ECMA-262, "Date Objects"). A time value
  is a number of milliseconds since 1970-01-01T00:00:00Z; every time value in range is an
  integer below \<open>2 ^ 53\<close> in size, so the double arithmetic of the program is exact
  and is written over \<^typ>\<open>int\<close>. The time value \<^verbatim>\<open>NaN\<close> of an invalid date is \<^const>\<open>None\<close>.
\<close>

subsection \<open>Day number, time within the day and year\<close>

definition msPerDay :: int where "msPerDay = 86400000"

definition Day :: "int \<Rightarrow> int" where "Day t = t div msPerDay"

definition TimeWithinDay :: "int \<Rightarrow> int" where "TimeWithinDay t = t mod msPerDay"

definition DaysInYear :: "int \<Rightarrow> int" where
  "DaysInYear y =
     (if y mod 4 \<noteq> 0 then 365
      else if y mod 100 \<noteq> 0 then 366
      else if y mod 400 \<noteq> 0 then 365
      else 366)"

definition DayFromYear :: "int \<Rightarrow> int" where
  "DayFromYear y =
     365 * (y - 1970) + (y - 1969) div 4 - (y - 1901) div 100 + (y - 1601) div 400"

definition TimeFromYear :: "int \<Rightarrow> int" where
  "TimeFromYear y = msPerDay * DayFromYear y"

text \<open>
  \<^verbatim>\<open>YearFromTime(t)\<close> is the largest year \<open>y\<close> with \<open>TimeFromYear y \<le> t\<close>. It is
  computed by a search upwards from a year that is not too late; the search ends because
  every year has days (\<open>DayFromYear_mono\<close>), and it finds the year of the standard
  (\<open>YearFromTime_spec\<close> below).
\<close>

lemma div_succ_le: "0 < (n::int) \<Longrightarrow> (a + 1) div n \<le> a div n + 1"
proof -
  assume n: "0 < n"
  have "(a + 1) div n \<le> (a + n) div n" using n by (intro zdiv_mono1) auto
  also have "\<dots> = a div n + 1" using n by (simp add: div_add_self2)
  finally show ?thesis .
qed

lemma div_succ_ge: "0 < (n::int) \<Longrightarrow> a div n \<le> (a + 1) div n"
  by (intro zdiv_mono1) auto

lemma year_length_lower:
  "(a::int) \<le> a' \<Longrightarrow> b' \<le> b + 1 \<Longrightarrow> c \<le> c' \<Longrightarrow>
   365 * (y - 1970) + a - b + c + 364 \<le> 365 * (y + 1 - 1970) + a' - b' + c'"
  by arith

lemma DayFromYear_mono: "DayFromYear y + 364 \<le> DayFromYear (y + 1)"
proof -
  have a: "(y - 1969) div 4 \<le> (y - 1969 + 1) div 4" by (rule div_succ_ge) simp
  have b: "(y - 1901 + 1) div 100 \<le> (y - 1901) div 100 + 1" by (rule div_succ_le) simp
  have c: "(y - 1601) div 400 \<le> (y - 1601 + 1) div 400" by (rule div_succ_ge) simp
  have e: "y + 1 - 1969 = y - 1969 + 1" "y + 1 - 1901 = y - 1901 + 1"
    "y + 1 - 1601 = y - 1601 + 1" by simp_all
  show ?thesis unfolding DayFromYear_def e by (rule year_length_lower [OF a b c])
qed

function year_search :: "int \<Rightarrow> int \<Rightarrow> int" where
  "year_search d y = (if DayFromYear (y + 1) \<le> d then year_search d (y + 1) else y)"
  by pat_completeness auto
termination
proof (relation "measure (\<lambda>(d, y). nat (d - DayFromYear y))")
  show "wf (measure (\<lambda>(d, y). nat (d - DayFromYear y)))" by simp
next
  fix d y :: int
  assume "DayFromYear (y + 1) \<le> d"
  then show "((d, y + 1), (d, y)) \<in> measure (\<lambda>(d, y). nat (d - DayFromYear y))"
    using DayFromYear_mono [of y] by simp
qed

definition YearFromTime :: "int \<Rightarrow> int" where
  "YearFromTime t =
     (let d = Day t
      in year_search d (1970 + (if 0 \<le> d then d div 366 else d div 365)))"

subsection \<open>Month, date and time of day\<close>

text \<open>
  The standard's tables for \<^verbatim>\<open>MonthFromTime\<close> and \<^verbatim>\<open>DateFromTime\<close>, by the day within
  the year and the leap day.
\<close>

definition InLeapYear :: "int \<Rightarrow> int" where
  "InLeapYear t = (if DaysInYear (YearFromTime t) = 366 then 1 else 0)"

definition DayWithinYear :: "int \<Rightarrow> int" where
  "DayWithinYear t = Day t - DayFromYear (YearFromTime t)"

definition MonthFromTime :: "int \<Rightarrow> int" where
  "MonthFromTime t =
     (let d = DayWithinYear t; l = InLeapYear t
      in if d < 31 then 0
         else if d < 59 + l then 1
         else if d < 90 + l then 2
         else if d < 120 + l then 3
         else if d < 151 + l then 4
         else if d < 181 + l then 5
         else if d < 212 + l then 6
         else if d < 243 + l then 7
         else if d < 273 + l then 8
         else if d < 304 + l then 9
         else if d < 334 + l then 10
         else 11)"

definition DateFromTime :: "int \<Rightarrow> int" where
  "DateFromTime t =
     (let d = DayWithinYear t; l = InLeapYear t; m = MonthFromTime t
      in if m = 0 then d + 1
         else if m = 1 then d - 30
         else if m = 2 then d - 58 - l
         else if m = 3 then d - 89 - l
         else if m = 4 then d - 119 - l
         else if m = 5 then d - 150 - l
         else if m = 6 then d - 180 - l
         else if m = 7 then d - 211 - l
         else if m = 8 then d - 242 - l
         else if m = 9 then d - 272 - l
         else if m = 10 then d - 303 - l
         else d - 333 - l)"

definition HourFromTime :: "int \<Rightarrow> int" where
  "HourFromTime t = (t div 3600000) mod 24"

definition MinFromTime :: "int \<Rightarrow> int" where
  "MinFromTime t = (t div 60000) mod 60"

definition SecFromTime :: "int \<Rightarrow> int" where
  "SecFromTime t = (t div 1000) mod 60"

definition msFromTime :: "int \<Rightarrow> int" where
  "msFromTime t = t mod 1000"

subsection \<open>Making a time value\<close>

text \<open>
  \<^verbatim>\<open>MakeDay(year, month, date)\<close>: the day number of the first day of the month (months
  beyond 0..11 carry into the year), plus \<open>date - 1\<close>: a date beyond the end of the
  month runs on into the following months and years. \<open>month_start\<close> is the day within
  the year on which a month starts.
\<close>

definition month_start :: "int \<Rightarrow> int \<Rightarrow> int" where
  "month_start mn l =
     (if mn = 0 then 0
      else if mn = 1 then 31
      else if mn = 2 then 59 + l
      else if mn = 3 then 90 + l
      else if mn = 4 then 120 + l
      else if mn = 5 then 151 + l
      else if mn = 6 then 181 + l
      else if mn = 7 then 212 + l
      else if mn = 8 then 243 + l
      else if mn = 9 then 273 + l
      else if mn = 10 then 304 + l
      else 334 + l)"

definition MakeDay :: "int \<Rightarrow> int \<Rightarrow> int \<Rightarrow> int" where
  "MakeDay year month date =
     (let ym = year + month div 12;
          mn = month mod 12;
          first = DayFromYear ym + month_start mn (if DaysInYear ym = 366 then 1 else 0)
      in first + date - 1)"

definition MakeDate :: "int \<Rightarrow> int \<Rightarrow> int" where
  "MakeDate day time = day * msPerDay + time"

definition TimeClip :: "int \<Rightarrow> int option" where
  "TimeClip t = (if \<bar>t\<bar> > 8640000000000000 then None else Some t)"

text \<open>
  The local zone is the standard's \<^verbatim>\<open>LocalTZA(t, isUTC)\<close>: the offset in milliseconds
  that applies at the UTC time \<open>t\<close>, or at the local time \<open>t\<close> when \<open>isUTC\<close> is
  false. It is a property of the host.
\<close>

type_synonym timezone = "int \<Rightarrow> bool \<Rightarrow> int"

definition LocalTime :: "timezone \<Rightarrow> int \<Rightarrow> int" where
  "LocalTime tz t = t + tz t True"

definition UTC :: "timezone \<Rightarrow> int \<Rightarrow> int" where
  "UTC tz t = t - tz t False"

subsection \<open>The methods of \<^verbatim>\<open>Date\<close> and \<^verbatim>\<open>getExpirationDate\<close>\<close>

text \<open>
  \<^verbatim>\<open>Date.prototype.getDate\<close> and \<^verbatim>\<open>Date.prototype.setDate\<close> on a date with the time
  value \<open>tv\<close>; \<^verbatim>\<open>setDate\<close> gives the new time value.
\<close>

definition getDate :: "timezone \<Rightarrow> int option \<Rightarrow> int option" where
  "getDate tz tv = (case tv of None \<Rightarrow> None | Some t \<Rightarrow> Some (DateFromTime (LocalTime tz t)))"

definition setDate :: "timezone \<Rightarrow> int option \<Rightarrow> int option \<Rightarrow> int option" where
  "setDate tz tv date =
     (case tv of None \<Rightarrow> None
      | Some t0 \<Rightarrow>
         (case date of None \<Rightarrow> None
          | Some dt \<Rightarrow>
             (let t = LocalTime tz t0;
                  newDate = MakeDate (MakeDay (YearFromTime t) (MonthFromTime t) dt)
                              (TimeWithinDay t)
              in TimeClip (UTC tz newDate))))"

text \<open>
  \<^verbatim>\<open>Date.prototype.toISOString\<close>: \<^verbatim>\<open>YYYY-MM-DDTHH:mm:ss.sssZ\<close> in UTC, the year with a
  sign and six digits outside 0..9999; an invalid date throws a \<^verbatim>\<open>RangeError\<close>.
\<close>

definition digit :: "int \<Rightarrow> char" where
  "digit d = ''0123456789'' ! nat d"

fun pad :: "nat \<Rightarrow> int \<Rightarrow> string" where
  "pad 0 n = []"
| "pad (Suc w) n = pad w (n div 10) @ [digit (n mod 10)]"

definition year_text :: "int \<Rightarrow> string" where
  "year_text y =
     (if 0 \<le> y \<and> y \<le> 9999 then pad 4 y
      else if y < 0 then CHR ''-'' # pad 6 (- y)
      else CHR ''+'' # pad 6 y)"

definition toISOString :: "int option \<Rightarrow> jsval + string" where
  "toISOString tv =
     (case tv of None \<Rightarrow> Inl (JError ''RangeError'' ''Invalid time value'')
      | Some t \<Rightarrow>
          Inr (year_text (YearFromTime t) @ ''-'' @ pad 2 (MonthFromTime t + 1) @ ''-''
               @ pad 2 (DateFromTime t) @ ''T'' @ pad 2 (HourFromTime t) @ '':''
               @ pad 2 (MinFromTime t) @ '':'' @ pad 2 (SecFromTime t) @ ''.''
               @ pad 3 (msFromTime t) @ ''Z''))"

text \<open>
  \<^verbatim>\<open>getExpirationDate(days)\<close> (lines 33-37), called at the time \<open>now\<close> that
  \<^verbatim>\<open>new Date()\<close> reads from the clock.
\<close>

definition getExpirationDate :: "timezone \<Rightarrow> int \<Rightarrow> int \<Rightarrow> jsval + string" where
  "getExpirationDate tz now days =
     (let date = Some now;
          date = setDate tz date (map_option (\<lambda>d. d + days) (getDate tz date))
      in toISOString date)"


subsection \<open>The calendar and the text of a timestamp, as a reader knows them\<close>
















section \<open>Language operations used by the routines\<close>

text \<open>
  An \<^verbatim>\<open>await\<close>ed call either resolves to a value or rejects with a thrown value;
  a synchronous expression either has a value or throws. Both are \<open>jsval + 'a\<close>, with
  \<^const>\<open>Inl\<close> the thrown value. \<open>andThen\<close> runs the rest of a block after a step:
  a throw skips it.
\<close>

definition andThen :: "jsval + 'a \<Rightarrow> ('a \<Rightarrow> jsval + 'b) \<Rightarrow> jsval + 'b" where
  "andThen m f = (case m of Inl e \<Rightarrow> Inl e | Inr x \<Rightarrow> f x)"

definition nullish :: "jsval \<Rightarrow> bool" where
  "nullish v \<longleftrightarrow> v = JUndefined \<or> v = JNull"

definition TypeError_read :: "jsval \<Rightarrow> string \<Rightarrow> jsval" where
  "TypeError_read v k =
     JError ''TypeError''
       (''Cannot read properties of ''
        @ (if v = JNull then ''null'' else ''undefined'')
        @ '' (reading '' @ [CHR 0x27] @ k @ [CHR 0x27] @ '')'')"

text \<open>
  \<open>get_property v k\<close> is \<^verbatim>\<open>v[k]\<close> for a value that is not nullish and a key that is
  one of the names the program reads (none of them is \<^verbatim>\<open>length\<close> or an index):
  an own property of a plain object, the two fields of an error, else \<^verbatim>\<open>undefined\<close>.
\<close>

definition get_property :: "jsval \<Rightarrow> string \<Rightarrow> jsval" where
  "get_property v k =
     (case v of
        JObject ps \<Rightarrow> (case map_of ps k of None \<Rightarrow> JUndefined | Some x \<Rightarrow> x)
      | JError n m \<Rightarrow>
          (if k = ''name'' then JStr n else if k = ''message'' then JStr m else JUndefined)
      | _ \<Rightarrow> JUndefined)"

text \<open>
  \<open>get_member v k\<close> is the member access \<^verbatim>\<open>v.k\<close> and also the destructuring
  \<^verbatim>\<open>const { k } = v\<close>: both throw a \<^verbatim>\<open>TypeError\<close> on \<^verbatim>\<open>undefined\<close> and \<^verbatim>\<open>null\<close>.
\<close>

definition get_member :: "jsval \<Rightarrow> string \<Rightarrow> jsval + jsval" where
  "get_member v k = (if nullish v then Inl (TypeError_read v k) else Inr (get_property v k))"

text \<open>\<open>coalesce v d\<close> is \<^verbatim>\<open>v ?? d\<close>.\<close>

definition coalesce :: "jsval \<Rightarrow> jsval \<Rightarrow> jsval" where
  "coalesce v d = (if nullish v then d else v)"

text \<open>
  \<open>last_entry xs\<close> is \<^verbatim>\<open>xs[xs.length - 1]\<close> for an array: reading index \<open>-1\<close> of an
  empty array gives \<^verbatim>\<open>undefined\<close>, it does not throw.
\<close>

definition last_entry :: "jsval list \<Rightarrow> jsval" where
  "last_entry xs = (if xs = [] then JUndefined else last xs)"

text \<open>
  The text a template literal \<^verbatim>\<open>`...${v}`\<close> inserts for the values of
  \<^verbatim>\<open>localStorage.getItem\<close>: a string as it is, \<^verbatim>\<open>null\<close> as the text \<^verbatim>\<open>null\<close>.
\<close>

definition template_text :: "jsval \<Rightarrow> string" where
  "template_text v = (case v of JStr s \<Rightarrow> s | JNull \<Rightarrow> ''null'' | _ \<Rightarrow> ''undefined'')"

text \<open>
  An identifier is looked up in the enclosing scopes, innermost first, then among the
  properties of the global object; an identifier bound nowhere throws a
  \<^verbatim>\<open>ReferenceError\<close>.
\<close>

definition resolve_identifier ::
  "(string \<times> jsval) list \<Rightarrow> (string \<rightharpoonup> jsval) \<Rightarrow> string \<Rightarrow> jsval + jsval" where
  "resolve_identifier scope global x =
     (case map_of scope x of
        Some v \<Rightarrow> Inr v
      | None \<Rightarrow>
          (case global x of
             Some v \<Rightarrow> Inr v
           | None \<Rightarrow> Inl (JError ''ReferenceError'' (x @ '' is not defined''))))"

section \<open>The external collaborators\<close>

text \<open>
  The identity and credential SDK (\<^verbatim>\<open>@web5/api\<close>, \<^verbatim>\<open>@web5/credentials\<close>), the
  authorization gateway behind \<^verbatim>\<open>fetch\<close>, the clock and the host are not part of the
  repository. One request sees them as the following answers: for each call the program
  makes, given the receiver and the argument, a resolved value or a thrown one. Nothing
  is assumed about the answers.

  A reply of \<^verbatim>\<open>records.query\<close> carries its \<^verbatim>\<open>records\<close> as an array, as the SDK builds it.
\<close>

record sdk =
  import_credentials :: "jsval + jsval"
  VerifiableCredential_create :: "jsval \<Rightarrow> jsval \<Rightarrow> jsval + jsval"
  Web5_connect :: "jsval + jsval"
  identity_get :: "jsval \<Rightarrow> jsval \<Rightarrow> jsval + jsval"
  vc_sign :: "jsval \<Rightarrow> jsval \<Rightarrow> jsval + jsval"
  records_create :: "jsval \<Rightarrow> jsval \<Rightarrow> jsval + jsval"
  record_send :: "jsval \<Rightarrow> jsval \<Rightarrow> jsval + jsval"
  records_query :: "jsval \<Rightarrow> jsval \<Rightarrow> jsval + jsval list"
  fetch_url :: "string \<Rightarrow> jsval + jsval"
  response_json :: "jsval \<Rightarrow> jsval + jsval"
  clock :: int
  zone :: timezone
  global_object :: "string \<rightharpoonup> jsval"

text \<open>
  A method call \<^verbatim>\<open>recv.path.method(arg)\<close> on a value obtained from the SDK: reading the
  first member of a nullish receiver throws; otherwise the SDK answers.
\<close>

definition call_on :: "jsval \<Rightarrow> string \<Rightarrow> (jsval \<Rightarrow> jsval + 'a) \<Rightarrow> jsval + 'a" where
  "call_on recv member answer =
     (if nullish recv then Inl (TypeError_read recv member) else answer recv)"

section \<open>Credential issuance\<close>

text \<open>The argument of \<^verbatim>\<open>VerifiableCredential.create\<close> (lines 106-132).\<close>

definition credential_options :: "storage \<Rightarrow> jsval \<Rightarrow> string \<Rightarrow> jsval" where
  "credential_options st custDid expirationDate =
     JObject
      [(''issuer'', getItem st ''didURI''),
       (''subject'', custDid),
       (''expirationDate'', JStr expirationDate),
       (''data'', JObject
          [(''countryOfResidence'', JStr ''KE''),
           (''tier'', JStr ''Bonafide Customer Tier''),
           (''jurisdiction'', JObject [(''country'', JStr ''KE'')])]),
       (''credentialsSchema'', JObject
          [(''id'', JStr ''https://vc.schemas.host/kcc.schema.json''),
           (''type'', JStr ''JsonSchema'')]),
       (''evidence'', JArray
          [JObject
             [(''kind'', JStr ''document_verification''),
              (''checks'', JArray [JStr ''passport'', JStr ''utility_bill''])],
           JObject
             [(''kind'', JStr ''sanction_screening''),
              (''checks'', JArray [JStr ''PEP''])]])]"

text \<open>The argument of \<^verbatim>\<open>web5.dwn.records.create\<close> (lines 142-153).\<close>

definition create_request :: "jsval \<Rightarrow> jsval \<Rightarrow> jsval" where
  "create_request signed_vc custDid =
     JObject
      [(''data'', signed_vc),
       (''store'', JBool False),
       (''message'', JObject
          [(''protocol'', JStr ''https://vc-to-dwn.tbddev.org/vc-protocol''),
           (''protocolPath'', JStr ''credential''),
           (''schema'', JStr ''https://vc-to-dwn.tbddev.org/vc-protocol/schema/credential''),
           (''recipient'', custDid),
           (''dataFormat'', JStr ''application/vc+jwt''),
           (''protocolRole'', JStr ''issuer'')])]"

text \<open>
  The argument of \<^verbatim>\<open>web5.dwn.records.query\<close>, the same in \<^verbatim>\<open>issueAndSignCredential\<close>
  (lines 160-168) and in \<^verbatim>\<open>getRecord\<close> (lines 180-188).
\<close>

definition query_request :: "storage \<Rightarrow> jsval \<Rightarrow> jsval" where
  "query_request st custDid =
     JObject
      [(''from'', custDid),
       (''message'', JObject
          [(''filter'', JObject
             [(''dataFormat'', JStr ''application/vc+jwt''),
              (''author'', getItem st ''didURI'')])])]"

text \<open>
  The \<^verbatim>\<open>try\<close> block of \<^verbatim>\<open>issueAndSignCredential\<close> (lines 103-170), step by step.
\<close>

definition issueAndSignCredential_try :: "sdk \<Rightarrow> storage \<Rightarrow> jsval \<Rightarrow> jsval + jsval" where
  "issueAndSignCredential_try s st custDid =
     andThen (import_credentials s) (\<lambda>module.
     andThen (get_member module ''VerifiableCredential'') (\<lambda>VerifiableCredential.
     andThen (call_on VerifiableCredential ''create'' (\<lambda>c.
                andThen (getExpirationDate (zone s) (clock s) 365) (\<lambda>expirationDate.
                VerifiableCredential_create s c
                  (credential_options st custDid expirationDate)))) (\<lambda>vc.
     andThen (Web5_connect s) (\<lambda>connection.
     andThen (get_member connection ''web5'') (\<lambda>web5.
     andThen (call_on web5 ''agent'' (\<lambda>w.
                identity_get s w (JObject [(''didUri'', getItem st ''didURI'')]))) (\<lambda>identity.
     andThen (get_member identity ''did'') (\<lambda>dwnBearerDid.
     andThen (call_on vc ''sign'' (\<lambda>v.
                vc_sign s v (JObject [(''did'', dwnBearerDid)]))) (\<lambda>signed_vc.
     andThen (call_on web5 ''dwn'' (\<lambda>w.
                records_create s w (create_request signed_vc custDid))) (\<lambda>created.
     andThen (get_member created ''record'') (\<lambda>record.
     andThen (call_on record ''send'' (\<lambda>r. record_send s r custDid)) (\<lambda>sent.
     andThen (get_member sent ''status'') (\<lambda>status.
     andThen (call_on web5 ''dwn'' (\<lambda>w.
                records_query s w (query_request st custDid))) (\<lambda>records.
     Inr (JObject
           [(''status'', status),
            (''record'', record),
            (''id'', last_entry records),
            (''KCC'', signed_vc)]))))))))))))))"

text \<open>
  \<^verbatim>\<open>issueAndSignCredential\<close>: the \<^verbatim>\<open>catch\<close> clause (lines 171-173) logs and returns
  nothing, so the routine resolves to \<^verbatim>\<open>undefined\<close> after any throw.
\<close>

definition issueAndSignCredential :: "sdk \<Rightarrow> storage \<Rightarrow> jsval \<Rightarrow> jsval" where
  "issueAndSignCredential s st custDid =
     (case issueAndSignCredential_try s st custDid of
        Inl error \<Rightarrow> JUndefined
      | Inr result \<Rightarrow> result)"

section \<open>Record query\<close>

text \<open>
  The bindings in scope at the \<^verbatim>\<open>return\<close> of \<^verbatim>\<open>getRecord\<close> (line 197): its parameter
  and the two constants of its \<^verbatim>\<open>try\<close> block, and around them the module's own: the
  five names of the module wrapper, the \<^verbatim>\<open>require\<close>d constants of lines 2-5, \<^verbatim>\<open>app\<close>,
  \<^verbatim>\<open>PORT\<close> and the six declared functions. The \<^verbatim>\<open>record\<close> of line 142 is a constant
  of the \<^verbatim>\<open>try\<close> block of \<^verbatim>\<open>issueAndSignCredential\<close> and is not visible here.
  \<^verbatim>\<open>localStorage\<close> (line 15) is assigned without a declaration, so it is a property of
  the global object. The values of the module's bindings are opaque.
\<close>

definition module_scope :: "(string \<times> jsval) list" where
  "module_scope =
     map (\<lambda>name. (name, JObject []))
       [''exports'', ''require'', ''module'', ''__filename'', ''__dirname'',
        ''express'', ''cors'', ''Web5'', ''LocalStorage'', ''app'', ''PORT'',
        ''removeCircularReferences'', ''getExpirationDate'', ''initialize'',
        ''issueAndSignCredential'', ''getRecord'', ''getPermission'']"

definition getRecord_scope :: "jsval \<Rightarrow> jsval \<Rightarrow> jsval list \<Rightarrow> (string \<times> jsval) list" where
  "getRecord_scope custDid web5 records =
     [(''records'', JArray records), (''web5'', web5), (''custDid'', custDid)] @ module_scope"

text \<open>
  The \<^verbatim>\<open>try\<close> block of \<^verbatim>\<open>getRecord\<close> (lines 179-199). The object literal evaluates
  \<^verbatim>\<open>records[records.length - 1]\<close>, then the identifier \<^verbatim>\<open>record\<close>.
\<close>

definition getRecord_try :: "sdk \<Rightarrow> storage \<Rightarrow> jsval \<Rightarrow> jsval + jsval" where
  "getRecord_try s st custDid =
     andThen (Web5_connect s) (\<lambda>connection.
     andThen (get_member connection ''web5'') (\<lambda>web5.
     andThen (call_on web5 ''dwn'' (\<lambda>w.
                records_query s w (query_request st custDid))) (\<lambda>records.
     andThen (Inr (last_entry records)) (\<lambda>record_field.
     andThen (resolve_identifier (getRecord_scope custDid web5 records)
                (global_object s) ''record'') (\<lambda>content_field.
     Inr (JObject [(''record'', record_field), (''content'', content_field)]))))))"

text \<open>\<^verbatim>\<open>getRecord\<close>: the \<^verbatim>\<open>catch\<close> clause (lines 200-202) returns what was thrown.\<close>

definition getRecord :: "sdk \<Rightarrow> storage \<Rightarrow> jsval \<Rightarrow> jsval" where
  "getRecord s st custDid =
     (case getRecord_try s st custDid of
        Inl e \<Rightarrow> e
      | Inr result \<Rightarrow> result)"

section \<open>Permission check\<close>

text \<open>
  \<^verbatim>\<open>getPermission\<close> (lines 206-215): the gateway's parsed answer, or \<^verbatim>\<open>undefined\<close>
  after any throw.
\<close>

definition getPermission_try :: "sdk \<Rightarrow> storage \<Rightarrow> jsval + jsval" where
  "getPermission_try s st =
     andThen (fetch_url s (''https://vc-to-dwn.tbddev.org/authorize?issuerDid=''
                           @ template_text (getItem st ''didURI''))) (\<lambda>response.
     andThen (call_on response ''json'' (response_json s)) (\<lambda>data.
     Inr data))"

definition getPermission :: "sdk \<Rightarrow> storage \<Rightarrow> jsval" where
  "getPermission s st =
     (case getPermission_try s st of
        Inl error \<Rightarrow> JUndefined
      | Inr data \<Rightarrow> data)"

section \<open>Process start\<close>

text \<open>
  What a routine does besides returning and writing the store: the routines of the
  service that it invokes, in order. Lines written to the console are not modelled.
\<close>

datatype effect =
    Invoke_initialize
  | Invoke_getPermission
  | Invoke_issueAndSignCredential
  | Invoke_getRecord

text \<open>
  The callback of \<^verbatim>\<open>app.listen\<close> (lines 244-252), run once when the server has started:
  \<^verbatim>\<open>initialize()\<close> is called when \<^verbatim>\<open>localStorage.getItem("registered") !== "true"\<close>;
  the other branch only logs.
\<close>

definition listen_callback :: "storage \<Rightarrow> effect list" where
  "listen_callback st =
     (if getItem st ''registered'' \<noteq> JStr ''true''
      then [Invoke_initialize]
      else [])"

section \<open>Routes\<close>

text \<open>
  A handler either sends one response or throws before sending (its promise rejects and
  Express sends nothing for it). A response is the status code, which no handler sets
  (Express starts it at 200), and the value handed to \<^verbatim>\<open>res.send\<close> or \<^verbatim>\<open>res.json\<close>.
  The run of a handler is the store it leaves, the routines it invoked and its reply.
  The request is the \<^verbatim>\<open>custDid\<close> member of the parsed body, \<^verbatim>\<open>undefined\<close> when the
  body has none.
\<close>

record response =
  status_code :: nat
  body :: jsval

record run =
  store_after :: storage
  invoked :: "effect list"
  reply :: "jsval + response"

text \<open>\<^verbatim>\<open>app.post("/")\<close> (lines 218-222).\<close>

definition post_root :: "sdk \<Rightarrow> storage \<Rightarrow> jsval \<Rightarrow> run" where
  "post_root s st custDid =
     (let records = getRecord s st custDid
      in \<lparr>store_after = st, invoked = [Invoke_getRecord],
          reply = Inr \<lparr>status_code = 200, body = records\<rparr>\<rparr>)"

text \<open>
  \<^verbatim>\<open>app.post("/get-credential")\<close> (lines 224-235). \<^verbatim>\<open>getPermission\<close> never rejects, so
  its \<^verbatim>\<open>then\<close> callback always runs. The four members of \<^verbatim>\<open>data\<close> are read in the
  order of the object literal.
\<close>

definition post_get_credential :: "sdk \<Rightarrow> storage \<Rightarrow> jsval \<Rightarrow> run" where
  "post_get_credential s st custDid =
     (let (st1, calls) =
            (if getItem st ''permission'' \<noteq> JStr ''true''
             then (let unused = getPermission s st
                   in (setItem st ''permission'' ''true'', [Invoke_getPermission]))
             else (st, []));
          data = issueAndSignCredential s st1 custDid
      in \<lparr>store_after = st1,
          invoked = calls @ [Invoke_issueAndSignCredential],
          reply =
            andThen (get_member data ''status'') (\<lambda>status.
            andThen (get_member data ''record'') (\<lambda>record.
            andThen (get_member data ''id'') (\<lambda>id.
            andThen (get_member data ''KCC'') (\<lambda>KCC.
            Inr \<lparr>status_code = 200,
                 body = JObject
                   [(''status'', coalesce status (JStr '''')),
                    (''record'', coalesce record (JStr '''')),
                    (''id'', coalesce id (JStr '''')),
                    (''KCC'', coalesce KCC (JStr ''''))]\<rparr>))))\<rparr>)"

text \<open>\<^verbatim>\<open>app.post("/get-permission")\<close> (lines 237-241).\<close>

definition post_get_permission :: "sdk \<Rightarrow> storage \<Rightarrow> run" where
  "post_get_permission s st =
     (let data = getPermission s st
      in \<lparr>store_after = setItem st ''permission'' ''true'',
          invoked = [Invoke_getPermission],
          reply = Inr \<lparr>status_code = 200, body = data\<rparr>\<rparr>)"

text \<open>
  The three routes, and the server answering requests one after the other, each with the
  collaborators as they answer during that request. The store is the only state a
  request leaves to the next.
\<close>

datatype request =
    Post_root jsval
  | Post_get_credential jsval
  | Post_get_permission

definition handle :: "sdk \<Rightarrow> storage \<Rightarrow> request \<Rightarrow> run" where
  "handle s st req =
     (case req of
        Post_root custDid \<Rightarrow> post_root s st custDid
      | Post_get_credential custDid \<Rightarrow> post_get_credential s st custDid
      | Post_get_permission \<Rightarrow> post_get_permission s st)"

fun serve :: "storage \<Rightarrow> (sdk \<times> request) list \<Rightarrow> run list" where
  "serve st [] = []"
| "serve st (sr # rest) =
     (let r = handle (fst sr) st (snd sr) in r # serve (store_after r) rest)"

section \<open>Serialization with cycle breaking\<close>

text \<open>
  \<^verbatim>\<open>initialize\<close> stores \<^verbatim>\<open>JSON.stringify(dwnBearerDid, removeCircularReferences())\<close>
  (line 93). The argument is a graph of objects, so here a value is a primitive or a
  reference to an object of a heap; an object is a plain object (its own enumerable
  properties, in order) or an array. The heap lists the objects of the graph by address.
  An address without an entry is an object without properties. Objects with a
  \<^verbatim>\<open>toJSON\<close> method and non-finite numbers are outside the model.
\<close>

datatype hval = HUndefined | HNull | HBool bool | HNum int | HStr string | HRef nat

datatype hobj = HObject "(string \<times> hval) list" | HArray "hval list"

type_synonym heap = "(nat \<times> hobj) list"

definition heap_get :: "heap \<Rightarrow> nat \<Rightarrow> hobj" where
  "heap_get h a = (case map_of h a of None \<Rightarrow> HObject [] | Some obj \<Rightarrow> obj)"

text \<open>
  \<^verbatim>\<open>removeCircularReferences\<close> (lines 19-30) returns a closure over a fresh
  \<^verbatim>\<open>WeakSet\<close>. The closure is the function below, with the set passed in and out; the
  fresh set is \<open>{}\<close>. \<^verbatim>\<open>typeof value === "object" && value !== null\<close> holds of
  references exactly.
\<close>

definition removeCircularReferences :: "nat set \<Rightarrow> string \<Rightarrow> hval \<Rightarrow> hval \<times> nat set" where
  "removeCircularReferences seen key v =
     (case v of
        HRef a \<Rightarrow> (if a \<in> seen then (HUndefined, seen) else (v, insert a seen))
      | _ \<Rightarrow> (v, seen))"

text \<open>\<^verbatim>\<open>JSON.stringify\<close> without a replacer, for comparison.\<close>

definition no_replacer :: "unit \<Rightarrow> string \<Rightarrow> hval \<Rightarrow> hval \<times> unit" where
  "no_replacer u key v = (v, u)"

text \<open>The key of an array element is its index in decimal.\<close>

fun decimal :: "nat \<Rightarrow> string" where
  "decimal n = (if n < 10 then [digit (int n)] else decimal (n div 10) @ [digit (int (n mod 10))])"

text \<open>
  \<^verbatim>\<open>JSON.stringify\<close> follows the standard's \<^verbatim>\<open>SerializeJSONProperty\<close>,
  \<^verbatim>\<open>SerializeJSONObject\<close> and \<^verbatim>\<open>SerializeJSONArray\<close>. Its result is given as the value
  that \<^verbatim>\<open>JSON.parse\<close> reads back from the text, or \<^const>\<open>None\<close> where the standard
  says \<^verbatim>\<open>undefined\<close>. A serialization may throw (\<^const>\<open>Inl\<close>); the outer
  \<^typ>\<open>'a option\<close> is \<^const>\<open>None\<close> when the recursion depth allowed is used up.

  A replacer is called with the key and the value held there, and returns the value to
  serialize; its own state is passed along.
\<close>

type_synonym 's replacer = "'s \<Rightarrow> string \<Rightarrow> hval \<Rightarrow> hval \<times> 's"

type_synonym ('s, 'a) serialized = "(jsval + 'a \<times> 's) option"

definition thenS ::
  "('s, 'a) serialized \<Rightarrow> ('a \<times> 's \<Rightarrow> ('s, 'b) serialized) \<Rightarrow> ('s, 'b) serialized" where
  "thenS m f = (case m of None \<Rightarrow> None | Some (Inl e) \<Rightarrow> Some (Inl e) | Some (Inr x) \<Rightarrow> f x)"

text \<open>
  The properties an object is serialized by, in order, and the value put together from
  their serializations: a property of a plain object whose serialization is
  \<^verbatim>\<open>undefined\<close> is left out, an element of an array whose serialization is
  \<^verbatim>\<open>undefined\<close> is written \<^verbatim>\<open>null\<close>.
\<close>

definition properties_of :: "hobj \<Rightarrow> (string \<times> hval) list" where
  "properties_of obj =
     (case obj of
        HObject ps \<Rightarrow> ps
      | HArray xs \<Rightarrow> zip (map decimal [0..<length xs]) xs)"

definition assemble :: "hobj \<Rightarrow> (string \<times> jsval option) list \<Rightarrow> jsval" where
  "assemble obj rs =
     (case obj of
        HObject ps \<Rightarrow>
          JObject (concat (map (\<lambda>(k, r). case r of None \<Rightarrow> [] | Some j \<Rightarrow> [(k, j)]) rs))
      | HArray xs \<Rightarrow>
          JArray (map (\<lambda>(k, r). case r of None \<Rightarrow> JNull | Some j \<Rightarrow> j) rs))"

text \<open>The loop over the properties of one object, each serialized in turn.\<close>

primrec serialize_each ::
  "('s \<Rightarrow> string \<Rightarrow> hval \<Rightarrow> ('s, jsval option) serialized) \<Rightarrow> 's \<Rightarrow> (string \<times> hval) list
   \<Rightarrow> ('s, (string \<times> jsval option) list) serialized" where
  "serialize_each property s [] = Some (Inr ([], s))"
| "serialize_each property s (p # ps) =
     thenS (property s (fst p) (snd p)) (\<lambda>(r, s1).
     thenS (serialize_each property s1 ps) (\<lambda>(rs, s2).
     Some (Inr ((fst p, r) # rs, s2))))"

text \<open>
  \<^verbatim>\<open>SerializeJSONProperty\<close>: the replacer is called first; an object that is already on
  the stack of objects being serialized throws the \<^verbatim>\<open>TypeError\<close> of a cyclic
  structure; otherwise the object is pushed and its properties are serialized. The first
  argument bounds the depth of the recursion.
\<close>

primrec SerializeJSONProperty ::
  "nat \<Rightarrow> 's replacer \<Rightarrow> heap \<Rightarrow> nat list \<Rightarrow> 's \<Rightarrow> string \<Rightarrow> hval
   \<Rightarrow> ('s, jsval option) serialized" where
  "SerializeJSONProperty 0 rep h stack s key held = None"
| "SerializeJSONProperty (Suc n) rep h stack s key held =
     (case rep s key held of
        (v, s1) \<Rightarrow>
          (case v of
             HUndefined \<Rightarrow> Some (Inr (None, s1))
           | HNull \<Rightarrow> Some (Inr (Some JNull, s1))
           | HBool b \<Rightarrow> Some (Inr (Some (JBool b), s1))
           | HNum i \<Rightarrow> Some (Inr (Some (JNum i), s1))
           | HStr t \<Rightarrow> Some (Inr (Some (JStr t), s1))
           | HRef a \<Rightarrow>
               (if a \<in> set stack
                then Some (Inl (JError ''TypeError'' ''Converting circular structure to JSON''))
                else thenS (serialize_each (SerializeJSONProperty n rep h (a # stack)) s1
                              (properties_of (heap_get h a)))
                       (\<lambda>(rs, s2). Some (Inr (Some (assemble (heap_get h a) rs), s2))))))"

text \<open>
  \<^verbatim>\<open>JSON.stringify(value, replacer)\<close>: the value is serialized as the property with the
  empty key of a wrapper. No path of objects is longer than the heap, so the depth given
  is never used up (\<open>JSON_stringify_total\<close>, \<open>serialize_more_fuel\<close> below).
\<close>

definition JSON_stringify ::
  "'s replacer \<Rightarrow> 's \<Rightarrow> heap \<Rightarrow> hval \<Rightarrow> ('s, jsval option) serialized" where
  "JSON_stringify rep s0 h v = SerializeJSONProperty (length h + 2) rep h [] s0 [] v"

subsection \<open>What a serialization is measured against\<close>










section \<open>Example environments\<close>

text \<open>
  One request in which every collaborator answers (the gateway with a denial), on
  2024-02-29T12:00:00Z in a zone without offset; a store as \<^verbatim>\<open>initialize\<close> leaves it;
  and the same request with the send to the customer's DWN failing, with the SDK unable
  to connect, and with the query failing.
\<close>

definition example_sdk :: sdk where
  "example_sdk =
     \<lparr>import_credentials = Inr (JObject [(''VerifiableCredential'', JObject [])]),
      VerifiableCredential_create = (\<lambda>c options. Inr (JObject [(''vcDataModel'', options)])),
      Web5_connect =
        Inr (JObject [(''web5'', JObject [(''agent'', JObject [])]),
                      (''did'', JStr ''did:dht:issuer'')]),
      identity_get = (\<lambda>w request. Inr (JObject [(''did'', JObject [(''uri'', JStr ''did:dht:issuer'')])])),
      vc_sign = (\<lambda>vc options. Inr (JStr ''eyJhbGciOiJFZERTQSJ9.e30.c2ln'')),
      records_create = (\<lambda>w request.
        Inr (JObject [(''status'', JObject [(''code'', JNum 202)]),
                      (''record'', JObject [(''id'', JStr ''record-2'')])])),
      record_send = (\<lambda>r target.
        Inr (JObject [(''status'', JObject [(''code'', JNum 202), (''detail'', JStr ''Accepted'')])])),
      records_query = (\<lambda>w request.
        Inr [JObject [(''id'', JStr ''record-1'')], JObject [(''id'', JStr ''record-2'')]]),
      fetch_url = (\<lambda>url. Inr (JObject [(''ok'', JBool True)])),
      response_json = (\<lambda>r. Inr (JObject [(''denied'', JBool True)])),
      clock = 1709208000000,
      zone = (\<lambda>t isUTC. 0),
      global_object = [''localStorage'' \<mapsto> JObject [], ''console'' \<mapsto> JObject []]\<rparr>"

definition example_store :: storage where
  "example_store = [''registered'' \<mapsto> ''true'', ''didURI'' \<mapsto> ''did:dht:issuer'']"

definition failing_sdk :: sdk where
  "failing_sdk = example_sdk\<lparr>record_send := (\<lambda>r target. Inl (JError ''Error'' ''fetch failed''))\<rparr>"

definition offline_sdk :: sdk where
  "offline_sdk = example_sdk\<lparr>Web5_connect := Inl (JError ''Error'' ''connect failed'')\<rparr>"

definition query_failing_sdk :: sdk where
  "query_failing_sdk =
     example_sdk\<lparr>records_query := (\<lambda>w request. Inl (JError ''Error'' ''query failed''))\<rparr>"


text \<open>
  An object that refers to itself; an array that holds itself; an object with two
  properties that refer to the same object, without a cycle.
\<close>

definition cyclic_object_heap :: heap where
  "cyclic_object_heap = [(0, HObject [(''name'', HStr ''a''), (''self'', HRef 0)])]"



section \<open>Properties\<close>

subsection \<open>The store and process start\<close>

lemma getItem_eq_JStr [simp]: "getItem st k = JStr v \<longleftrightarrow> st k = Some v"
  by (simp add: getItem_def split: option.splits)

lemma getItem_setItem [simp]:
  "getItem (setItem st k v) k' = (if k' = k then JStr v else getItem st k')"
  by (simp add: getItem_def setItem_def)

text \<open>
  Claim C7. At process start the bootstrap routine \<^verbatim>\<open>initialize\<close> is invoked exactly
  when the store's \<^verbatim>\<open>registered\<close> key does not hold \<^verbatim>\<open>"true"\<close>: once, never twice.
  With an empty store it is invoked exactly once; with \<^verbatim>\<open>registered = "true"\<close> it is
  not invoked.
\<close>

theorem listen_callback_initialize:
  "count_list (listen_callback st) Invoke_initialize =
     (if st ''registered'' = Some ''true'' then 0 else 1)
   \<and> count_list (listen_callback Map.empty) Invoke_initialize = 1
   \<and> count_list (listen_callback (setItem st' ''registered'' ''true''))
        Invoke_initialize = 0"
  by (simp add: listen_callback_def)

subsection \<open>Dates\<close>







lemma Day_add_days: "Day (t + n * msPerDay) = Day t + n"
  by (simp add: Day_def msPerDay_def)

lemma TimeWithinDay_add_days: "TimeWithinDay (t + n * msPerDay) = TimeWithinDay t"
  by (simp add: TimeWithinDay_def msPerDay_def)

text \<open>
  The year found by the search is the year of the standard, and the day within the year
  is within the year's length.
\<close>

lemma div_succ_eq:
  assumes n: "0 < (n::int)"
  shows "(a + 1) div n = a div n + (if (a + 1) mod n = 0 then 1 else 0)"
proof (cases "a mod n + 1 = n")
  case True
  have "a + 1 = n * (a div n) + (a mod n + 1)" by simp
  also have "\<dots> = n * (a div n) + n" using True by simp
  also have "\<dots> = n * (a div n + 1) + 0" by (simp add: algebra_simps)
  finally have e: "a + 1 = n * (a div n + 1) + 0" .
  have z: "(0::int) \<le> 0" by simp
  have "(a + 1) div n = a div n + 1" by (rule int_div_pos_eq [OF e z n])
  moreover have "(a + 1) mod n = 0" by (rule int_mod_pos_eq [OF e z n])
  ultimately show ?thesis by simp
next
  case False
  have "a mod n < n" by (rule pos_mod_bound [OF n])
  then have r2: "a mod n + 1 < n" using False by linarith
  have "0 \<le> a mod n" by (rule pos_mod_sign [OF n])
  then have r1: "0 \<le> a mod n + 1" by linarith
  have e: "a + 1 = n * (a div n) + (a mod n + 1)" by simp
  have "(a + 1) div n = a div n" by (rule int_div_pos_eq [OF e r1 r2])
  moreover have "(a + 1) mod n = a mod n + 1" by (rule int_mod_pos_eq [OF e r1 r2])
  moreover have "a mod n + 1 \<noteq> 0" using \<open>0 \<le> a mod n\<close> by linarith
  ultimately show ?thesis by simp
qed

lemma shift_mod_4: "((y::int) - 1969 + 1) mod 4 = y mod 4"
proof -
  have "y - 1969 + 1 = y + 4 * (- 492)" by simp
  then show ?thesis by (simp only: mod_mult_self2)
qed

lemma shift_mod_100: "((y::int) - 1901 + 1) mod 100 = y mod 100"
proof -
  have "y - 1901 + 1 = y + 100 * (- 19)" by simp
  then show ?thesis by (simp only: mod_mult_self2)
qed

lemma shift_mod_400: "((y::int) - 1601 + 1) mod 400 = y mod 400"
proof -
  have "y - 1601 + 1 = y + 400 * (- 4)" by simp
  then show ?thesis by (simp only: mod_mult_self2)
qed

lemma mod_0_dvd: "(m::int) dvd n \<Longrightarrow> y mod n = 0 \<Longrightarrow> y mod m = 0"
  using dvd_trans mod_0_imp_dvd by (metis dvd_eq_mod_eq_0)

lemma DayFromYear_step: "DayFromYear (y + 1) = DayFromYear y + DaysInYear y"
proof -
  define a4 :: int where "a4 = (if y mod 4 = 0 then 1 else 0)"
  define b100 :: int where "b100 = (if y mod 100 = 0 then 1 else 0)"
  define c400 :: int where "c400 = (if y mod 400 = 0 then 1 else 0)"
  have e: "y + 1 - 1969 = y - 1969 + 1" "y + 1 - 1901 = y - 1901 + 1"
    "y + 1 - 1601 = y - 1601 + 1" "y + 1 - 1970 = y - 1970 + 1" by simp_all
  have "(y - 1969 + 1) div 4 =
          (y - 1969) div 4 + (if (y - 1969 + 1) mod 4 = 0 then 1 else 0)"
    by (rule div_succ_eq) simp
  then have A: "(y - 1969 + 1) div 4 = (y - 1969) div 4 + a4"
    by (simp only: shift_mod_4 a4_def)
  have "(y - 1901 + 1) div 100 =
          (y - 1901) div 100 + (if (y - 1901 + 1) mod 100 = 0 then 1 else 0)"
    by (rule div_succ_eq) simp
  then have B: "(y - 1901 + 1) div 100 = (y - 1901) div 100 + b100"
    by (simp only: shift_mod_100 b100_def)
  have "(y - 1601 + 1) div 400 =
          (y - 1601) div 400 + (if (y - 1601 + 1) mod 400 = 0 then 1 else 0)"
    by (rule div_succ_eq) simp
  then have C: "(y - 1601 + 1) div 400 = (y - 1601) div 400 + c400"
    by (simp only: shift_mod_400 c400_def)
  have "y mod 100 = 0 \<Longrightarrow> y mod 4 = 0" by (rule mod_0_dvd [of 4 100]) simp_all
  moreover have "y mod 400 = 0 \<Longrightarrow> y mod 100 = 0" by (rule mod_0_dvd [of 100 400]) simp_all
  ultimately have D: "DaysInYear y = 365 + a4 - b100 + c400"
    unfolding DaysInYear_def a4_def b100_def c400_def by auto
  show ?thesis
    unfolding DayFromYear_def e A B C D by (simp add: algebra_simps)
qed

lemma DaysInYear_cases: "DaysInYear y = 365 \<or> DaysInYear y = 366"
  by (simp add: DaysInYear_def)

lemma year_search_bounds:
  "DayFromYear y \<le> d \<Longrightarrow>
   DayFromYear (year_search d y) \<le> d \<and> d < DayFromYear (year_search d y + 1)"
proof (induction d y rule: year_search.induct)
  case (1 d y)
  show ?case
  proof (cases "DayFromYear (y + 1) \<le> d")
    case True
    then have "year_search d y = year_search d (y + 1)"
      by (subst year_search.simps) simp
    with 1 True show ?thesis by simp
  next
    case False
    then have "year_search d y = y" by (subst year_search.simps) simp
    with 1 False show ?thesis by simp
  qed
qed

lemma DayFromYear_after_1970: "DayFromYear (1970 + int k) \<le> 366 * int k"
proof (induction k)
  case 0
  show ?case by (simp add: DayFromYear_def)
next
  case (Suc k)
  have "DayFromYear (1970 + int (Suc k)) = DayFromYear (1970 + int k + 1)"
    by (simp add: add.assoc)
  also have "\<dots> = DayFromYear (1970 + int k) + DaysInYear (1970 + int k)"
    by (rule DayFromYear_step)
  finally show ?case
    using Suc DaysInYear_cases [of "1970 + int k"] by auto
qed

lemma DayFromYear_before_1970: "DayFromYear (1970 - int k) \<le> - 365 * int k"
proof (induction k)
  case 0
  show ?case by (simp add: DayFromYear_def)
next
  case (Suc k)
  have "DayFromYear (1970 - int k) = DayFromYear (1970 - int (Suc k) + 1)"
    by (simp add: algebra_simps)
  also have "\<dots> = DayFromYear (1970 - int (Suc k)) + DaysInYear (1970 - int (Suc k))"
    by (rule DayFromYear_step)
  finally show ?case
    using Suc DaysInYear_cases [of "1970 - int (Suc k)"] by auto
qed

lemma mult_div_le_int: "0 < (n::int) \<Longrightarrow> n * (d div n) \<le> d"
proof -
  assume n: "0 < n"
  have "n * (d div n) + d mod n = d" by simp
  moreover have "0 \<le> d mod n" by (rule pos_mod_sign [OF n])
  ultimately show ?thesis by linarith
qed

lemma less_mult_div_int: "0 < (n::int) \<Longrightarrow> d < n * (d div n + 1)"
proof -
  assume n: "0 < n"
  have "n * (d div n) + d mod n = d" by simp
  moreover have "d mod n < n" by (rule pos_mod_bound [OF n])
  moreover have "n * (d div n + 1) = n * (d div n) + n" by (simp add: algebra_simps)
  ultimately show ?thesis by linarith
qed

lemma year_estimate:
  "DayFromYear (1970 + (if 0 \<le> d then d div 366 else d div 365)) \<le> d"
proof (cases "0 \<le> d")
  case True
  then have k: "0 \<le> d div 366" by simp
  have "DayFromYear (1970 + int (nat (d div 366))) \<le> 366 * int (nat (d div 366))"
    by (rule DayFromYear_after_1970)
  then have "DayFromYear (1970 + d div 366) \<le> 366 * (d div 366)" using k by simp
  also have "\<dots> \<le> d" by (rule mult_div_le_int) simp
  finally show ?thesis using True by simp
next
  case False
  then have k: "d div 365 < 0" by simp
  have "DayFromYear (1970 - int (nat (- (d div 365)))) \<le> - 365 * int (nat (- (d div 365)))"
    by (rule DayFromYear_before_1970)
  then have "DayFromYear (1970 + d div 365) \<le> 365 * (d div 365)" using k by simp
  also have "\<dots> \<le> d" by (rule mult_div_le_int) simp
  finally show ?thesis using False by simp
qed

lemma YearFromTime_days:
  "DayFromYear (YearFromTime t) \<le> Day t \<and> Day t < DayFromYear (YearFromTime t + 1)"
  unfolding YearFromTime_def Let_def by (rule year_search_bounds [OF year_estimate])

lemma YearFromTime_spec:
  "TimeFromYear (YearFromTime t) \<le> t \<and> t < TimeFromYear (YearFromTime t + 1)"
proof -
  have lo: "msPerDay * Day t \<le> t"
    unfolding Day_def by (rule mult_div_le_int) (simp add: msPerDay_def)
  have "t < msPerDay * (Day t + 1)"
    unfolding Day_def by (rule less_mult_div_int) (simp add: msPerDay_def)
  moreover have "msPerDay * (Day t + 1) \<le> msPerDay * DayFromYear (YearFromTime t + 1)"
    using YearFromTime_days [of t] by (simp add: msPerDay_def)
  moreover have "msPerDay * DayFromYear (YearFromTime t) \<le> msPerDay * Day t"
    using YearFromTime_days [of t] by (simp add: msPerDay_def)
  ultimately show ?thesis using lo unfolding TimeFromYear_def by linarith
qed



text \<open>The text of a valid date, and three calls evaluated.\<close>

lemma length_pad [simp]: "length (pad w n) = w"
  by (induction w arbitrary: n) simp_all

lemma toISOString_length:
  "0 \<le> YearFromTime t \<Longrightarrow> YearFromTime t \<le> 9999 \<Longrightarrow>
   \<exists>text. toISOString (Some t) = Inr text \<and> length text = 24"
  by (simp add: toISOString_def year_text_def)

lemma toISOString_valid: "\<exists>text. toISOString (Some t) = Inr text"
  by (simp add: toISOString_def)


lemma example_expiration:
  "getExpirationDate (\<lambda>t isUTC. 0) 1709208000000 365 = Inr ''2025-02-28T12:00:00.000Z''"
  by code_simp








































subsection \<open>Credential issuance and its route\<close>


lemma andThen_Inl [simp]: "andThen (Inl e) f = Inl e"
  by (simp add: andThen_def)

lemma andThen_Inr [simp]: "andThen (Inr x) f = f x"
  by (simp add: andThen_def)




text \<open>
  Conversely, when every call answers and no answer lacks the member read from it, the
  block completes.
\<close>

lemma issueAndSignCredential_try_InrI:
  assumes "import_credentials s = Inr module" "\<not> nullish module"
    "\<not> nullish (get_property module ''VerifiableCredential'')"
    "getExpirationDate (zone s) (clock s) 365 = Inr expirationDate"
    "VerifiableCredential_create s (get_property module ''VerifiableCredential'')
       (credential_options st custDid expirationDate) = Inr vc" "\<not> nullish vc"
    "Web5_connect s = Inr connection" "\<not> nullish connection"
    "\<not> nullish (get_property connection ''web5'')"
    "identity_get s (get_property connection ''web5'')
       (JObject [(''didUri'', getItem st ''didURI'')]) = Inr identity" "\<not> nullish identity"
    "vc_sign s vc (JObject [(''did'', get_property identity ''did'')]) = Inr signed_vc"
    "records_create s (get_property connection ''web5'')
       (create_request signed_vc custDid) = Inr created" "\<not> nullish created"
    "\<not> nullish (get_property created ''record'')"
    "record_send s (get_property created ''record'') custDid = Inr sent" "\<not> nullish sent"
    "records_query s (get_property connection ''web5'')
       (query_request st custDid) = Inr records"
  shows "issueAndSignCredential_try s st custDid =
           Inr (JObject [(''status'', get_property sent ''status''),
                         (''record'', get_property created ''record''),
                         (''id'', last_entry records), (''KCC'', signed_vc)])"
  using assms
  by (simp add: issueAndSignCredential_try_def get_member_def call_on_def)




lemmas evaluate =
  issueAndSignCredential_def issueAndSignCredential_try_def getRecord_def getRecord_try_def
  getPermission_def getPermission_try_def get_member_def call_on_def nullish_def
  get_property_def last_entry_def resolve_identifier_def getRecord_scope_def module_scope_def
  example_sdk_def example_store_def failing_sdk_def offline_sdk_def query_failing_sdk_def
  credential_options_def create_request_def query_request_def


lemma issueAndSignCredential_try_permission:
  "issueAndSignCredential_try s (setItem st ''permission'' v) custDid =
   issueAndSignCredential_try s st custDid"
  by (simp add: issueAndSignCredential_try_def credential_options_def query_request_def)

lemma get_member_undefined [simp]: "get_member JUndefined k = Inl (TypeError_read JUndefined k)"
  by (simp add: get_member_def nullish_def)

text \<open>
  Claim C10. When \<^verbatim>\<open>issueAndSignCredential\<close> takes its \<^verbatim>\<open>catch\<close> path it resolves to
  \<^verbatim>\<open>undefined\<close>; the handler of \<^verbatim>\<open>POST /get-credential\<close> then reads
  \<^verbatim>\<open>data.status\<close> of \<^verbatim>\<open>undefined\<close>, which throws a \<^verbatim>\<open>TypeError\<close>: no response is
  sent, in particular not the one with the empty-string fallbacks.
\<close>

theorem post_get_credential_throws_on_failure:
  assumes "issueAndSignCredential_try s st custDid = Inl e"
  shows "issueAndSignCredential s st custDid = JUndefined
         \<and> reply (post_get_credential s st custDid) = Inl (TypeError_read JUndefined ''status'')
         \<and> (\<forall>r. reply (post_get_credential s st custDid) \<noteq> Inr r)"
proof -
  have u: "issueAndSignCredential s st' custDid = JUndefined"
    if "st' = st \<or> st' = setItem st ''permission'' ''true''" for st'
    using that assms
    by (auto simp: issueAndSignCredential_def issueAndSignCredential_try_permission)
  have "reply (post_get_credential s st custDid) = Inl (TypeError_read JUndefined ''status'')"
    by (simp add: post_get_credential_def Let_def u)
  with u [of st] show ?thesis by simp
qed

theorem post_get_credential_throws_on_failure_witness:
  "issueAndSignCredential_try failing_sdk example_store (JStr ''did:example:alice'') =
     Inl (JError ''Error'' ''fetch failed'')
   \<and> reply (post_get_credential failing_sdk example_store (JStr ''did:example:alice'')) =
     Inl (TypeError_read JUndefined ''status'')"
proof -
  have h: "issueAndSignCredential_try failing_sdk example_store (JStr ''did:example:alice'') =
     Inl (JError ''Error'' ''fetch failed'')"
    by (simp add: evaluate example_expiration)
  from post_get_credential_throws_on_failure [OF h] h show ?thesis by simp
qed

text \<open>
  Claim C1, on a request during which the SDK cannot connect: the route does not respond
  with status 200 and the four empty strings. The handler throws before it responds.
\<close>

theorem post_get_credential_no_placeholder_response:
  "reply (post_get_credential offline_sdk example_store (JStr ''did:example:alice'')) =
     Inl (TypeError_read JUndefined ''status'')
   \<and> reply (post_get_credential offline_sdk example_store (JStr ''did:example:alice'')) \<noteq>
     Inr \<lparr>status_code = 200,
          body = JObject [(''status'', JStr ''''), (''record'', JStr ''''),
                          (''id'', JStr ''''), (''KCC'', JStr '''')]\<rparr>"
  by (simp add: post_get_credential_def Let_def evaluate example_expiration)

subsection \<open>The permission flag\<close>

lemma post_get_credential_store:
  "store_after (post_get_credential s st custDid) =
     (if st ''permission'' = Some ''true'' then st else setItem st ''permission'' ''true'')"
  "invoked (post_get_credential s st custDid) =
     (if st ''permission'' = Some ''true'' then [] else [Invoke_getPermission])
     @ [Invoke_issueAndSignCredential]"
  by (simp_all add: post_get_credential_def Let_def)

lemma handle_keeps_permission:
  assumes "st ''permission'' = Some ''true''"
  shows "store_after (handle s st req) ''permission'' = Some ''true''"
    and "Invoke_getPermission \<in> set (invoked (handle s st req)) \<Longrightarrow> req = Post_get_permission"
  using assms
  by (cases req; simp add: handle_def post_root_def post_get_permission_def
        post_get_credential_store setItem_def)+

lemma serve_keeps_permission:
  "st ''permission'' = Some ''true'' \<Longrightarrow>
   list_all2 (\<lambda>sr r. store_after r ''permission'' = Some ''true''
                     \<and> (Invoke_getPermission \<in> set (invoked r) \<longrightarrow> snd sr = Post_get_permission))
     reqs (serve st reqs)"
proof (induction reqs arbitrary: st)
  case Nil
  show ?case by simp
next
  case (Cons sr reqs)
  from Cons.prems handle_keeps_permission [of st "fst sr" "snd sr"]
  have "store_after (handle (fst sr) st (snd sr)) ''permission'' = Some ''true''"
    and "Invoke_getPermission \<in> set (invoked (handle (fst sr) st (snd sr))) \<longrightarrow>
           snd sr = Post_get_permission"
    by simp_all
  with Cons.IH [of "store_after (handle (fst sr) st (snd sr))"]
  show ?case by (simp add: Let_def)
qed

text \<open>
  Claim C3. After \<^verbatim>\<open>POST /get-permission\<close> the store's \<^verbatim>\<open>permission\<close> key holds
  \<^verbatim>\<open>"true"\<close>, whatever the gateway answered, also when the call to it failed. After
  \<^verbatim>\<open>POST /get-credential\<close> it holds \<^verbatim>\<open>"true"\<close> as well: when it did not before, the
  permission check is invoked once and the key is set without a look at the answer; when
  it did, the check is not invoked. In every later request, whatever the collaborators
  answer, the key still holds \<^verbatim>\<open>"true"\<close> and only \<^verbatim>\<open>POST /get-permission\<close> itself
  consults the gateway.
\<close>

theorem permission_flag_set_unconditionally:
  "store_after (post_get_permission s st) ''permission'' = Some ''true''
   \<and> store_after (post_get_permission s st) = setItem st ''permission'' ''true''
   \<and> store_after (post_get_credential s st custDid) ''permission'' = Some ''true''
   \<and> store_after (post_get_credential s st custDid) =
       (if st ''permission'' = Some ''true'' then st else setItem st ''permission'' ''true'')
   \<and> invoked (post_get_credential s st custDid) =
       (if st ''permission'' = Some ''true'' then [] else [Invoke_getPermission])
       @ [Invoke_issueAndSignCredential]
   \<and> list_all2 (\<lambda>sr r. store_after r ''permission'' = Some ''true''
                       \<and> (Invoke_getPermission \<in> set (invoked r) \<longrightarrow>
                            snd sr = Post_get_permission))
       later (serve (store_after (post_get_permission s st)) later)
   \<and> list_all2 (\<lambda>sr r. store_after r ''permission'' = Some ''true''
                       \<and> (Invoke_getPermission \<in> set (invoked r) \<longrightarrow>
                            snd sr = Post_get_permission))
       later (serve (store_after (post_get_credential s st custDid)) later)"
proof -
  have a: "store_after (post_get_permission s st) ''permission'' = Some ''true''"
    by (simp add: post_get_permission_def setItem_def)
  have b: "store_after (post_get_credential s st custDid) ''permission'' = Some ''true''"
    by (simp add: post_get_credential_store setItem_def)
  show ?thesis
    using a b
      serve_keeps_permission [of "store_after (post_get_permission s st)" later]
      serve_keeps_permission [of "store_after (post_get_credential s st custDid)" later]
    by (simp add: post_get_credential_store) (simp add: post_get_permission_def)
qed

theorem permission_flag_set_unconditionally_witness:
  "response_json example_sdk (JObject [(''ok'', JBool True)]) =
     Inr (JObject [(''denied'', JBool True)])
   \<and> example_store ''permission'' = None
   \<and> store_after (post_get_permission example_sdk example_store) ''permission'' = Some ''true''
   \<and> map invoked
       (serve example_store
          [(example_sdk, Post_get_credential (JStr ''did:example:alice'')),
           (offline_sdk, Post_get_credential (JStr ''did:example:bob'')),
           (example_sdk, Post_root (JStr ''did:example:alice''))]) =
     [[Invoke_getPermission, Invoke_issueAndSignCredential],
      [Invoke_issueAndSignCredential],
      [Invoke_getRecord]]
   \<and> list_all (\<lambda>r. store_after r ''permission'' = Some ''true'')
       (serve (store_after (post_get_permission example_sdk example_store))
          [(offline_sdk, Post_get_credential (JStr ''did:example:bob'')),
           (example_sdk, Post_root (JStr ''did:example:alice''))])"
  using permission_flag_set_unconditionally
          [of example_sdk example_store "JStr ''did:example:alice''"
              "[(offline_sdk, Post_get_credential (JStr ''did:example:bob'')),
                (example_sdk, Post_root (JStr ''did:example:alice''))]"]
  by (simp add: handle_def post_root_def post_get_credential_store post_get_permission_def
        example_sdk_def example_store_def setItem_def Let_def)

subsection \<open>Record query and its route\<close>

text \<open>
  Claim C9. Provided the host has no global named \<^verbatim>\<open>record\<close> (the program creates
  none), \<^verbatim>\<open>getRecord\<close> never completes its \<^verbatim>\<open>try\<close> block: it always returns what was
  thrown. When the connection and the query succeed, that is the \<^verbatim>\<open>ReferenceError\<close> of
  the identifier \<^verbatim>\<open>record\<close>; otherwise it is what the SDK threw, or the
  \<^verbatim>\<open>TypeError\<close> of reading a member of a nullish connection.
\<close>

theorem getRecord_always_returns_error:
  assumes "global_object s ''record'' = None"
  shows "(\<exists>e. getRecord_try s st custDid = Inl e \<and> getRecord s st custDid = e)
    \<and> (\<forall>connection records.
          Web5_connect s = Inr connection \<and> \<not> nullish connection
          \<and> \<not> nullish (get_property connection ''web5'')
          \<and> records_query s (get_property connection ''web5'') (query_request st custDid)
              = Inr records
          \<longrightarrow> getRecord s st custDid = JError ''ReferenceError'' ''record is not defined'')
    \<and> (getRecord s st custDid = JError ''ReferenceError'' ''record is not defined''
        \<or> Web5_connect s = Inl (getRecord s st custDid)
        \<or> (\<exists>web5. records_query s web5 (query_request st custDid) = Inl (getRecord s st custDid))
        \<or> (\<exists>v k. nullish v \<and> getRecord s st custDid = TypeError_read v k))"
proof -
  have r: "resolve_identifier (getRecord_scope custDid web5 records) (global_object s) ''record''
             = Inl (JError ''ReferenceError'' ''record is not defined'')" for web5 records
    by (simp add: resolve_identifier_def getRecord_scope_def module_scope_def assms)
  show ?thesis
    unfolding getRecord_def getRecord_try_def
    by (auto simp: r andThen_def get_member_def call_on_def split: sum.splits)
qed

theorem getRecord_always_returns_error_witness:
  "global_object example_sdk ''record'' = None
   \<and> getRecord example_sdk example_store (JStr ''did:example:alice'') =
       JError ''ReferenceError'' ''record is not defined''
   \<and> getRecord_try example_sdk example_store (JStr ''did:example:alice'') =
       Inl (JError ''ReferenceError'' ''record is not defined'')"
proof -
  have h: "global_object example_sdk ''record'' = None" by (simp add: example_sdk_def)
  from getRecord_always_returns_error [OF h, of example_store "JStr ''did:example:alice''"]
  show ?thesis using h by (auto simp: evaluate)
qed

text \<open>
  Claim C2, on a request whose query succeeds with two records: \<^verbatim>\<open>getRecord\<close> does not
  return \<^verbatim>\<open>{ record: records[last], content: ... }\<close>, with \<^verbatim>\<open>content\<close> undefined or
  otherwise. It returns the \<^verbatim>\<open>ReferenceError\<close> that reading \<^verbatim>\<open>record\<close> throws.
\<close>

theorem getRecord_example_returns_ReferenceError:
  "records_query example_sdk (JObject [(''agent'', JObject [])])
      (query_request example_store (JStr ''did:example:alice'')) =
     Inr [JObject [(''id'', JStr ''record-1'')], JObject [(''id'', JStr ''record-2'')]]
   \<and> getRecord example_sdk example_store (JStr ''did:example:alice'') =
     JError ''ReferenceError'' ''record is not defined''
   \<and> (\<forall>content. getRecord example_sdk example_store (JStr ''did:example:alice'') \<noteq>
         JObject [(''record'', JObject [(''id'', JStr ''record-2'')]), (''content'', content)])"
  by (simp add: evaluate)

text \<open>
  Claim C8. \<^verbatim>\<open>POST /\<close> always responds, with the status code left at 200 and with
  exactly what \<^verbatim>\<open>getRecord\<close> returned as the body; when the connection or the query
  throws, the body is the thrown value itself. The store is not written.
\<close>

theorem post_root_forwards_getRecord:
  "reply (post_root s st custDid) =
     Inr \<lparr>status_code = 200, body = getRecord s st custDid\<rparr>
   \<and> store_after (post_root s st custDid) = st
   \<and> (\<forall>e. Web5_connect s = Inl e \<longrightarrow>
         reply (post_root s st custDid) = Inr \<lparr>status_code = 200, body = e\<rparr>)
   \<and> (\<forall>connection e.
         Web5_connect s = Inr connection \<and> \<not> nullish connection
         \<and> \<not> nullish (get_property connection ''web5'')
         \<and> records_query s (get_property connection ''web5'') (query_request st custDid)
             = Inl e \<longrightarrow>
         reply (post_root s st custDid) = Inr \<lparr>status_code = 200, body = e\<rparr>)"
  by (simp add: post_root_def getRecord_def getRecord_try_def get_member_def call_on_def)

theorem post_root_forwards_getRecord_witness:
  "Web5_connect offline_sdk = Inl (JError ''Error'' ''connect failed'')
   \<and> reply (post_root offline_sdk example_store (JStr ''did:example:alice'')) =
       Inr \<lparr>status_code = 200, body = JError ''Error'' ''connect failed''\<rparr>
   \<and> records_query query_failing_sdk (JObject [(''agent'', JObject [])])
        (query_request example_store (JStr ''did:example:alice'')) =
       Inl (JError ''Error'' ''query failed'')
   \<and> reply (post_root query_failing_sdk example_store (JStr ''did:example:alice'')) =
       Inr \<lparr>status_code = 200, body = JError ''Error'' ''query failed''\<rparr>"
  using post_root_forwards_getRecord [of offline_sdk example_store "JStr ''did:example:alice''"]
    post_root_forwards_getRecord [of query_failing_sdk example_store "JStr ''did:example:alice''"]
  by (simp add: evaluate)


subsection \<open>Serialization with cycle breaking\<close>



lemma thenS_Some_Inr [simp]: "thenS (Some (Inr x)) f = f x"
  by (simp add: thenS_def)

lemma replacer_simps:
  "removeCircularReferences s k (HRef a) =
     (if a \<in> s then (HUndefined, s) else (HRef a, insert a s))"
  "removeCircularReferences s k HUndefined = (HUndefined, s)"
  "removeCircularReferences s k HNull = (HNull, s)"
  "removeCircularReferences s k (HBool b) = (HBool b, s)"
  "removeCircularReferences s k (HNum i) = (HNum i, s)"
  "removeCircularReferences s k (HStr t) = (HStr t, s)"
  by (simp_all add: removeCircularReferences_def)





















lemma thenS_Some_Inl [simp]: "thenS (Some (Inl e)) f = Some (Inl e)"
  by (simp add: thenS_def)

lemma thenS_SomeD: "thenS m f = Some y \<Longrightarrow> \<exists>z. m = Some z"
  by (cases m) (simp_all add: thenS_def)

lemma serialize_each_more_fuel:
  assumes "\<And>s k v x. property s k v = Some x \<Longrightarrow> property' s k v = Some x"
  shows "serialize_each property s ps = Some y \<Longrightarrow> serialize_each property' s ps = Some y"
proof (induction ps arbitrary: s y)
  case Nil
  then show ?case by simp
next
  case (Cons p ps)
  from Cons.prems obtain z where z: "property s (fst p) (snd p) = Some z"
    by (auto dest: thenS_SomeD)
  then have z': "property' s (fst p) (snd p) = Some z" by (rule assms)
  show ?case
  proof (cases z)
    case (Inl e)
    with Cons.prems z z' show ?thesis by simp
  next
    case (Inr x)
    obtain r s1 where x: "x = (r, s1)" by (cases x)
    from Cons.prems z Inr x obtain z2 where z2: "serialize_each property s1 ps = Some z2"
      by (auto dest: thenS_SomeD)
    then have "serialize_each property' s1 ps = Some z2" by (rule Cons.IH)
    with Cons.prems z z' Inr x z2 show ?thesis by simp
  qed
qed

lemma serialize_Suc_fuel:
  "SerializeJSONProperty n rep h stack s key held = Some x \<Longrightarrow>
   SerializeJSONProperty (Suc n) rep h stack s key held = Some x"
proof (induction n arbitrary: stack s key held x)
  case 0
  then show ?case by simp
next
  case (Suc n)
  obtain v s1 where rep: "rep s key held = (v, s1)" by (cases "rep s key held")
  show ?case
  proof (cases v)
    case (HRef a)
    show ?thesis
    proof (cases "a \<in> set stack")
      case True
      with Suc.prems rep HRef show ?thesis by simp
    next
      case False
      let ?k = "\<lambda>(rs, s2). Some (Inr (Some (assemble (heap_get h a) rs), s2))"
      let ?ps = "properties_of (heap_get h a)"
      from Suc.prems rep HRef False
      have 1: "thenS (serialize_each (SerializeJSONProperty n rep h (a # stack)) s1 ?ps) ?k
                 = Some x"
        by simp
      then obtain z where
        z: "serialize_each (SerializeJSONProperty n rep h (a # stack)) s1 ?ps = Some z"
        by (auto dest: thenS_SomeD)
      have "serialize_each (SerializeJSONProperty (Suc n) rep h (a # stack)) s1 ?ps = Some z"
        by (rule serialize_each_more_fuel [OF Suc.IH z])
      with 1 z have
        "thenS (serialize_each (SerializeJSONProperty (Suc n) rep h (a # stack)) s1 ?ps) ?k
           = Some x"
        by (simp del: SerializeJSONProperty.simps)
      with rep HRef False show ?thesis
        by (subst SerializeJSONProperty.simps(2)) (simp del: SerializeJSONProperty.simps)
    qed
  qed (use Suc.prems rep in auto)
qed

lemma serialize_more_fuel:
  "SerializeJSONProperty n rep h stack s key held = Some x \<Longrightarrow>
   SerializeJSONProperty (n + k) rep h stack s key held = Some x"
  by (induction k) (simp_all add: serialize_Suc_fuel del: SerializeJSONProperty.simps)

lemma stringify_cycle_without_replacer:
  "JSON_stringify no_replacer () cyclic_object_heap (HRef 0) =
     Some (Inl (JError ''TypeError'' ''Converting circular structure to JSON''))"
  by (simp add: JSON_stringify_def cyclic_object_heap_def no_replacer_def heap_get_def properties_of_def)


lemma stringify_cyclic_object:
  "JSON_stringify removeCircularReferences {} cyclic_object_heap (HRef 0) =
     Some (Inr (Some (JObject [(''name'', JStr ''a'')]), {0}))"
  by (simp add: JSON_stringify_def cyclic_object_heap_def replacer_simps heap_get_def
        properties_of_def assemble_def)




end
